theory Spec2Isabelle
  imports Main
begin

section \<open>The target layout component\<close>

text \<open>
  A shallow embedding of \<^verbatim>\<open>packages/web/app/src/components/layouts/target.tsx\<close>.
  The component \<^verbatim>\<open>TargetLayout\<close> reads the route, two query results and the
  actor's membership, registers three side effects and returns an element. The
  embedding splits it the way React runs it: the element returned by one render
  (\<open>TargetLayout\<close>), and the effects committed after it (\<open>TargetLayout_effects\<close>).
\<close>

subsection \<open>Fetched data\<close>

text \<open>\<^verbatim>\<open>enum TabValue\<close>, lines 18 to 24; the prop \<^verbatim>\<open>value\<close> ranges over the same five strings.\<close>

datatype TabValue = Schema | History | Operations | Laboratory | Settings

text \<open>
  The members of \<^verbatim>\<open>TargetAccessScope\<close> that the component names (lines 84, 89, 90).
  The enumeration itself is declared in \<^verbatim>\<open>@/lib/access/target\<close>.
\<close>

datatype TargetAccessScope = Scope_Read | Scope_RegistryRead | Scope_Settings

text \<open>The fields of the GraphQL fragments that the component reads.\<close>

record TargetFieldsFragment =
  cleanId :: string
  target_name :: string

record TargetConnection =
  nodes :: "TargetFieldsFragment list"
  total_count :: int

record TargetsData =
  data_targets :: TargetConnection

record Member =
  scopes :: "TargetAccessScope list"

record OrganizationFieldsFragment =
  org_name :: string
  org_me :: Member

record ProjectFieldsFragment =
  project_name :: string
  project_type :: string

text \<open>
  \<open>data_organization\<close> is \<^verbatim>\<open>data.organization.organization\<close>, \<open>data_project\<close> is
  \<^verbatim>\<open>data.project\<close>; both are nullable here, as a GraphQL field is unless declared otherwise.
\<close>

record ProjectData =
  data_organization :: "OrganizationFieldsFragment option"
  data_project :: "ProjectFieldsFragment option"

datatype CombinedError = CombinedError string

text \<open>The triple \<^verbatim>\<open>{data, fetching, error}\<close> that \<^verbatim>\<open>useQuery\<close> hands to the component.\<close>

record 'd UseQueryState =
  data :: "'d option"
  fetching :: bool
  error :: "CombinedError option"

text \<open>
  The object returned by \<^verbatim>\<open>useRouteSelector\<close>. Dependency arrays compare it by
  identity, which \<open>router_id\<close> stands for.
\<close>

record Router =
  router_id :: nat
  organizationId :: string
  projectId :: string
  targetId :: string
  asPath :: string

text \<open>Everything one render of the component reads.\<close>

record State =
  router :: Router
  targetsQuery :: "TargetsData UseQueryState"
  projectQuery :: "ProjectData UseQueryState"

subsection \<open>Derived values, lines 63 to 67\<close>

definition targets :: "State \<Rightarrow> TargetConnection option" where
  "targets s = map_option data_targets (data (targetsQuery s))"

definition target :: "State \<Rightarrow> TargetFieldsFragment option" where
  "target s =
     (case targets s of
        None \<Rightarrow> None
      | Some ts \<Rightarrow> List.find (\<lambda>node. cleanId node = targetId (router s)) (nodes ts))"

definition org :: "State \<Rightarrow> OrganizationFieldsFragment option" where
  "org s = (case data (projectQuery s) of None \<Rightarrow> None | Some d \<Rightarrow> data_organization d)"

definition project :: "State \<Rightarrow> ProjectFieldsFragment option" where
  "project s = (case data (projectQuery s) of None \<Rightarrow> None | Some d \<Rightarrow> data_project d)"

definition me :: "State \<Rightarrow> Member option" where
  "me s = map_option org_me (org s)"

subsection \<open>Stripping the fragment: \<^verbatim>\<open>asPath.replace(/#.*/, '')\<close>\<close>

text \<open>
  Strings are byte strings (UTF-8). In a regular expression without the \<^verbatim>\<open>s\<close> flag the
  dot matches every character but the four line terminators LF, CR, U+2028 and U+2029;
  the last two are three bytes each. \<open>lineTerminatorAt\<close> tells whether a string
  begins with one.
\<close>

fun lineTerminatorAt :: "string \<Rightarrow> bool" where
  "lineTerminatorAt [] = False"
| "lineTerminatorAt (c # cs) =
     (c = CHR 0x0A \<or> c = CHR 0x0D \<or>
      (c = CHR 0xE2 \<and> (take 2 cs = [CHR 0x80, CHR 0xA8] \<or> take 2 cs = [CHR 0x80, CHR 0xA9])))"

text \<open>What is left of a string once the greedy \<^verbatim>\<open>.*\<close> has consumed all it can.\<close>

fun after_dots :: "string \<Rightarrow> string" where
  "after_dots [] = []"
| "after_dots (c # cs) = (if lineTerminatorAt (c # cs) then c # cs else after_dots cs)"

text \<open>
  The pattern has no \<^verbatim>\<open>g\<close> flag: only the leftmost match, which starts at the
  first \<^verbatim>\<open>#\<close>, is replaced by the empty string.
\<close>

fun replace_fragment :: "string \<Rightarrow> string" where
  "replace_fragment [] = []"
| "replace_fragment (c # cs) =
     (if c = CHR ''#'' then after_dots cs else c # replace_fragment cs)"

text \<open>Whether a line terminator occurs anywhere in a string.\<close>

fun hasLineTerminator :: "string \<Rightarrow> bool" where
  "hasLineTerminator [] = False"
| "hasLineTerminator (c # cs) = (lineTerminatorAt (c # cs) \<or> hasLineTerminator cs)"

subsection \<open>Access checks\<close>

text \<open>
  Modelled from the spec: \<^verbatim>\<open>canAccessTarget\<close> is imported from
  \<^verbatim>\<open>@/lib/access/target\<close>, which is not among the sources. The spec gives it as
  \<^verbatim>\<open>canAccessTarget(scope, actor) -> bool\<close>, computed from the actor's membership
  record or its absence: the actor holds the scope.
\<close>

definition canAccessTarget :: "TargetAccessScope \<Rightarrow> Member option \<Rightarrow> bool" where
  "canAccessTarget scope member =
     (case member of None \<Rightarrow> False | Some m \<Rightarrow> scope \<in> set (scopes m))"

text \<open>
  Navigation requests: \<^verbatim>\<open>router.push(url, as)\<close>, and the redirect away from the page
  that the read-scope check issues (the spec does not name its destination).
\<close>

datatype Navigation = Push string string | AccessRedirect


subsection \<open>Effects, lines 69 to 87\<close>

text \<open>The body of the first effect, lines 70 to 73.\<close>

definition targetsEffect :: "State \<Rightarrow> Navigation list" where
  "targetsEffect s =
     (if \<not> fetching (targetsQuery s) \<and> target s = None
      then [Push ''/404'' (replace_fragment (asPath (router s)))]
      else [])"

text \<open>The body of the second effect, lines 77 to 80.\<close>

definition projectEffect :: "State \<Rightarrow> Navigation list" where
  "projectEffect s =
     (if \<not> fetching (projectQuery s) \<and> project s = None
      then [Push ''/404'' (replace_fragment (asPath (router s)))]
      else [])"












subsection \<open>The rendered element, lines 92 to 192\<close>

record Anchor =
  href :: string
  label :: string

record DropdownItem =
  item_key :: string
  item_link :: Anchor

record RenderProps =
  rp_target :: "TargetFieldsFragment option"
  rp_project :: "ProjectFieldsFragment option"
  rp_organization :: "OrganizationFieldsFragment option"

record 'n Layout =
  breadcrumb :: "(Anchor \<times> Anchor) option"
  heading :: "string option"
  dropdown :: "DropdownItem list option"
  projectType :: "string option"
  tabsValue :: TabValue
  triggers :: "(TabValue \<times> Anchor) list"
  contentValue :: TabValue
  contentClassName :: "string option"
  contentBody :: 'n

datatype 'n Element = Spinner | QueryError "CombinedError option" | Fragment "'n Layout"

text \<open>\<^verbatim>\<open>cond && element\<close> in a list of children; React renders a false child as nothing.\<close>

definition guard :: "bool \<Rightarrow> 'a \<Rightarrow> 'a option" where
  "guard b x = (if b then Some x else None)"

fun rendered :: "'a option list \<Rightarrow> 'a list" where
  "rendered [] = []"
| "rendered (None # xs) = rendered xs"
| "rendered (Some x # xs) = x # rendered xs"

text \<open>\<^verbatim>\<open>a || b\<close> on two possibly undefined objects.\<close>

definition or_else :: "'a option \<Rightarrow> 'a option \<Rightarrow> 'a option" where
  "or_else a b = (case a of Some x \<Rightarrow> Some x | None \<Rightarrow> b)"

definition TargetLayout ::
  "(RenderProps \<Rightarrow> 'n) \<Rightarrow> TabValue \<Rightarrow> string option \<Rightarrow> State \<Rightarrow> 'n Element" where
  "TargetLayout children val className s =
     (let orgId = organizationId (router s);
          projId = projectId (router s);
          tgtId = targetId (router s);
          canAccessSchema = canAccessTarget Scope_RegistryRead (me s);
          canAccessSettings = canAccessTarget Scope_Settings (me s);
          base = ''/'' @ orgId @ ''/'' @ projId @ ''/'' @ tgtId
      in
        if fetching (projectQuery s) \<or> fetching (targetsQuery s) then Spinner
        else if error (projectQuery s) \<noteq> None \<or> error (targetsQuery s) \<noteq> None
        then QueryError (or_else (error (projectQuery s)) (error (targetsQuery s)))
        else Fragment
          \<lparr>breadcrumb =
             (case org s of
                None \<Rightarrow> None
              | Some o1 \<Rightarrow>
                  (case project s of
                     None \<Rightarrow> None
                   | Some p \<Rightarrow>
                       Some (\<lparr>href = ''/'' @ orgId, label = org_name o1\<rparr>,
                             \<lparr>href = ''/'' @ orgId @ ''/'' @ projId, label = project_name p\<rparr>))),
           heading = map_option target_name (target s),
           dropdown =
             (case targets s of
                None \<Rightarrow> None
              | Some ts \<Rightarrow>
                  guard (total_count ts > 1)
                    (rendered
                       (map (\<lambda>node.
                               guard (cleanId node \<noteq> tgtId)
                                 \<lparr>item_key = cleanId node,
                                  item_link =
                                    \<lparr>href = ''/'' @ orgId @ ''/'' @ projId @ ''/'' @ cleanId node,
                                     label = target_name node\<rparr>\<rparr>)
                          (nodes ts)))),
           projectType = map_option project_type (project s),
           tabsValue = val,
           triggers =
             rendered
               [guard canAccessSchema (Schema, \<lparr>href = base, label = ''Schema''\<rparr>),
                guard canAccessSchema (History, \<lparr>href = base @ ''/history'', label = ''History''\<rparr>),
                guard canAccessSchema
                  (Operations, \<lparr>href = base @ ''/operations'', label = ''Operations''\<rparr>),
                guard canAccessSchema
                  (Laboratory, \<lparr>href = base @ ''/laboratory'', label = ''Laboratory''\<rparr>),
                guard canAccessSettings
                  (Settings, \<lparr>href = base @ ''/settings'', label = ''Settings''\<rparr>)],
           contentValue = val,
           contentClassName = className,
           contentBody =
             children \<lparr>rp_target = target s, rp_project = project s, rp_organization = org s\<rparr>\<rparr>)"

text \<open>The values of the tab triggers that an element contains; a spinner or an error display has none.\<close>

fun triggerValues :: "'n Element \<Rightarrow> TabValue list" where
  "triggerValues (Fragment l) = map fst (triggers l)"
| "triggerValues Spinner = []"
| "triggerValues (QueryError e) = []"


text \<open>The dropdown that an element contains, if any.\<close>

fun dropdownOf :: "'n Element \<Rightarrow> DropdownItem list option" where
  "dropdownOf (Fragment l) = dropdown l"
| "dropdownOf Spinner = None"
| "dropdownOf (QueryError e) = None"

text \<open>The breadcrumb that an element contains, if any.\<close>

fun breadcrumbOf :: "'n Element \<Rightarrow> (Anchor \<times> Anchor) option" where
  "breadcrumbOf (Fragment l) = breadcrumb l"
| "breadcrumbOf Spinner = None"
| "breadcrumbOf (QueryError e) = None"

text \<open>
  The states in which neither return of lines 92 to 98 is taken, so that the main
  layout of lines 100 to 192 is what the component returns.
\<close>

definition ready :: "State \<Rightarrow> bool" where
  "ready s =
     (\<not> (fetching (projectQuery s) \<or> fetching (targetsQuery s)) \<and>
      \<not> (error (projectQuery s) \<noteq> None \<or> error (targetsQuery s) \<noteq> None))"

subsection \<open>Concrete states\<close>

text \<open>Query results: settled with data, failed, and in flight.\<close>

definition settled :: "'d \<Rightarrow> 'd UseQueryState" where
  "settled d = \<lparr>data = Some d, fetching = False, error = None\<rparr>"

definition failed :: "string \<Rightarrow> 'd UseQueryState" where
  "failed msg = \<lparr>data = None, fetching = False, error = Some (CombinedError msg)\<rparr>"

definition pending :: "'d UseQueryState" where
  "pending = \<lparr>data = None, fetching = True, error = None\<rparr>"

text \<open>The route and the target list of the spec's scenario, on a path with a fragment.\<close>

definition acme_router :: Router where
  "acme_router =
     \<lparr>router_id = 0, organizationId = ''acme'', projectId = ''api'', targetId = ''prod'',
      asPath = ''/acme/api/prod#top''\<rparr>"

definition acme_targets :: TargetsData where
  "acme_targets =
     \<lparr>data_targets =
        \<lparr>nodes = [\<lparr>cleanId = ''prod'', target_name = ''Production''\<rparr>,
                  \<lparr>cleanId = ''stage'', target_name = ''Staging''\<rparr>],
         total_count = 2\<rparr>\<rparr>"

definition no_targets :: TargetsData where
  "no_targets = \<lparr>data_targets = \<lparr>nodes = [], total_count = 0\<rparr>\<rparr>"

text \<open>A connection that reports two targets and carries one.\<close>

definition one_of_two :: TargetsData where
  "one_of_two =
     \<lparr>data_targets =
        \<lparr>nodes = [\<lparr>cleanId = ''prod'', target_name = ''Production''\<rparr>], total_count = 2\<rparr>\<rparr>"

definition owner :: Member where
  "owner = \<lparr>scopes = [Scope_Read, Scope_RegistryRead, Scope_Settings]\<rparr>"

definition reader :: Member where
  "reader = \<lparr>scopes = [Scope_Read, Scope_RegistryRead]\<rparr>"

definition settings_only :: Member where
  "settings_only = \<lparr>scopes = [Scope_Read, Scope_Settings]\<rparr>"

definition no_read :: Member where
  "no_read = \<lparr>scopes = [Scope_RegistryRead, Scope_Settings]\<rparr>"

definition guest :: Member where
  "guest = \<lparr>scopes = []\<rparr>"

definition acme_project :: "Member \<Rightarrow> ProjectData" where
  "acme_project m =
     \<lparr>data_organization = Some \<lparr>org_name = ''Acme'', org_me = m\<rparr>,
      data_project = Some \<lparr>project_name = ''API'', project_type = ''SINGLE''\<rparr>\<rparr>"

text \<open>Everything loaded, the actor holding every scope.\<close>

definition acme_state :: State where
  "acme_state =
     \<lparr>router = acme_router, targetsQuery = settled acme_targets,
      projectQuery = settled (acme_project owner)\<rparr>"

text \<open>The organization exists and the project does not.\<close>

definition no_project :: "Member \<Rightarrow> ProjectData" where
  "no_project m =
     \<lparr>data_organization = Some \<lparr>org_name = ''Acme'', org_me = m\<rparr>, data_project = None\<rparr>"

text \<open>Both fetches settled: no target, no project, and an actor without any scope.\<close>

definition nowhere_state :: State where
  "nowhere_state =
     \<lparr>router = acme_router, targetsQuery = settled no_targets,
      projectQuery = settled (no_project guest)\<rparr>"

section \<open>Properties\<close>

lemmas fixtures = settled_def failed_def pending_def acme_router_def acme_targets_def
  no_targets_def one_of_two_def owner_def reader_def settings_only_def no_read_def guest_def
  acme_project_def acme_state_def no_project_def nowhere_state_def

lemmas derived = targets_def target_def org_def project_def me_def

subsection \<open>Auxiliary facts\<close>







lemma guard_eq_None: "guard b x = None \<longleftrightarrow> \<not> b"
  by (simp add: guard_def)

lemma guard_eq_Some: "guard b x = Some y \<longleftrightarrow> b \<and> x = y"
  by (auto simp add: guard_def)

lemma rendered_map_guard:
  "rendered (map (\<lambda>x. guard (P x) (f x)) xs) = map f (filter P xs)"
  by (induction xs) (simp_all add: guard_def)

lemma after_dots_plain: "\<not> hasLineTerminator cs \<Longrightarrow> after_dots cs = []"
  by (induction cs) simp_all

lemma replace_fragment_takeWhile:
  "\<not> hasLineTerminator p \<Longrightarrow> replace_fragment p = takeWhile (\<lambda>c. c \<noteq> CHR ''#'') p"
  by (induction p) (simp_all add: after_dots_plain)

lemma replace_fragment_unchanged: "CHR ''#'' \<notin> set p \<Longrightarrow> replace_fragment p = p"
  by (induction p) auto

text \<open>
  The dot stops at a line terminator: what follows one survives the replacement.
\<close>

lemma replace_fragment_line_feed:
  "replace_fragment [CHR ''/'', CHR ''a'', CHR ''#'', CHR ''b'', CHR 0x0A, CHR ''c''] =
     [CHR ''/'', CHR ''a'', CHR 0x0A, CHR ''c'']"
  by simp

subsection \<open>The not-found redirect for a missing target\<close>




subsection \<open>Tabs and access scopes\<close>

text \<open>
  C2: for an actor who lacks the registry-read scope, the returned element contains none
  of the Schema, History, Operations and Laboratory triggers; for an actor who lacks
  the settings scope, it does not contain the Settings trigger. An absent membership
  record lacks every scope.
\<close>

theorem tabs_gated_by_scope:
  "(\<not> canAccessTarget Scope_RegistryRead (me s) \<longrightarrow>
      set (triggerValues (TargetLayout children val cn s)) \<inter>
        {Schema, History, Operations, Laboratory} = {}) \<and>
   (\<not> canAccessTarget Scope_Settings (me s) \<longrightarrow>
      Settings \<notin> set (triggerValues (TargetLayout children val cn s)))"
  by (simp add: TargetLayout_def Let_def guard_def)

theorem tabs_gated_by_scope_witness:
  "\<not> canAccessTarget Scope_RegistryRead
       (me (acme_state\<lparr>projectQuery := settled (acme_project settings_only)\<rparr>)) \<and>
   triggerValues
     (TargetLayout id Schema None
        (acme_state\<lparr>projectQuery := settled (acme_project settings_only)\<rparr>)) =
     [Settings] \<and>
   \<not> canAccessTarget Scope_Settings
       (me (acme_state\<lparr>projectQuery := settled (acme_project reader)\<rparr>)) \<and>
   triggerValues
     (TargetLayout id Schema None (acme_state\<lparr>projectQuery := settled (acme_project reader)\<rparr>)) =
     [Schema, History, Operations, Laboratory]"
  using
    tabs_gated_by_scope
      [of "acme_state\<lparr>projectQuery := settled (acme_project settings_only)\<rparr>" id Schema None]
    tabs_gated_by_scope
      [of "acme_state\<lparr>projectQuery := settled (acme_project reader)\<rparr>" id Schema None]
  by (simp add: fixtures derived TargetLayout_def Let_def guard_def canAccessTarget_def)

subsection \<open>The target switcher\<close>

text \<open>
  The dropdown is decided by the connection's \<^verbatim>\<open>total\<close> (line 119), not by the number
  of nodes it carries: a connection with one node that reports two targets renders
  a dropdown, and an empty one.
\<close>

theorem dropdown_by_length_counterexample:
  "length (nodes (data_targets one_of_two)) = 1 \<and>
   ready (acme_state\<lparr>targetsQuery := settled one_of_two\<rparr>) \<and>
   dropdownOf (TargetLayout id Schema None (acme_state\<lparr>targetsQuery := settled one_of_two\<rparr>)) =
     Some []"
  by (simp add: fixtures derived ready_def TargetLayout_def Let_def guard_def)

text \<open>
  C3, amended: when the fetched connection reports a total of at most 1, no dropdown
  is rendered. When it reports more than 1 and the main layout is rendered, the
  dropdown is rendered and holds, in list order, exactly the fetched nodes whose
  cleanId differs from the route's target identifier, each as a link to
  \<^verbatim>\<open>/{org}/{project}/{cleanId}\<close> labelled with the node's name.
\<close>

theorem dropdown_lists_other_targets:
  assumes "data (targetsQuery s) = Some d"
  shows "(total_count (data_targets d) \<le> 1 \<longrightarrow>
            dropdownOf (TargetLayout children val cn s) = None) \<and>
         (ready s \<and> total_count (data_targets d) > 1 \<longrightarrow>
            dropdownOf (TargetLayout children val cn s) =
              Some (map (\<lambda>node.
                      \<lparr>item_key = cleanId node,
                       item_link =
                         \<lparr>href = ''/'' @ organizationId (router s) @ ''/'' @
                                 projectId (router s) @ ''/'' @ cleanId node,
                          label = target_name node\<rparr>\<rparr>)
                    (filter (\<lambda>node. cleanId node \<noteq> targetId (router s))
                       (nodes (data_targets d)))))"
  using assms
  by (simp add: TargetLayout_def Let_def ready_def targets_def rendered_map_guard
      guard_eq_None guard_eq_Some)

text \<open>
  The spec's scenario: organization acme, project api, target prod, and the targets
  Production and Staging; the only entry is Staging, linking to \<^verbatim>\<open>/acme/api/stage\<close>.
\<close>

theorem dropdown_lists_other_targets_witness:
  "data (targetsQuery acme_state) = Some acme_targets \<and> ready acme_state \<and>
   total_count (data_targets acme_targets) > 1 \<and>
   dropdownOf (TargetLayout id Schema None acme_state) =
     Some [\<lparr>item_key = ''stage'',
            item_link = \<lparr>href = ''/acme/api/stage'', label = ''Staging''\<rparr>\<rparr>] \<and>
   total_count (data_targets no_targets) \<le> 1 \<and>
   dropdownOf (TargetLayout id Schema None (acme_state\<lparr>targetsQuery := settled no_targets\<rparr>)) =
     None"
  using dropdown_lists_other_targets [of acme_state acme_targets id Schema None]
    dropdown_lists_other_targets
      [of "acme_state\<lparr>targetsQuery := settled no_targets\<rparr>" no_targets id Schema None]
  by (simp add: fixtures ready_def)

subsection \<open>The read-scope check\<close>




subsection \<open>Loading and error phases\<close>

text \<open>
  A fetch that has failed does not bring the error display while the other fetch is
  in flight: the project fetch has failed, the targets fetch is pending, and the
  component returns the spinner.
\<close>

theorem error_display_counterexample:
  "error (projectQuery (acme_state\<lparr>projectQuery := failed ''boom'', targetsQuery := pending\<rparr>)) =
     Some (CombinedError ''boom'') \<and>
   TargetLayout id Schema None
     (acme_state\<lparr>projectQuery := failed ''boom'', targetsQuery := pending\<rparr>) = Spinner"
  by (simp add: fixtures TargetLayout_def)

text \<open>
  C5, amended: in every state in which either fetch is in flight the component returns
  the spinner instead of the main layout; in every state in which neither fetch is in
  flight and either has reported an error it returns the error display instead of the
  main layout.
\<close>

theorem spinner_then_error_display:
  "(fetching (projectQuery s) \<or> fetching (targetsQuery s) \<longrightarrow>
      TargetLayout children val cn s = Spinner) \<and>
   (\<not> fetching (projectQuery s) \<and> \<not> fetching (targetsQuery s) \<and>
    (error (projectQuery s) \<noteq> None \<or> error (targetsQuery s) \<noteq> None) \<longrightarrow>
      (\<exists>e. TargetLayout children val cn s = QueryError (Some e)))"
  by (auto simp add: TargetLayout_def Let_def or_else_def split: option.splits)

theorem spinner_then_error_display_witness:
  "fetching (targetsQuery (acme_state\<lparr>targetsQuery := pending\<rparr>)) \<and>
   TargetLayout id Schema None (acme_state\<lparr>targetsQuery := pending\<rparr>) = Spinner \<and>
   \<not> fetching (projectQuery (acme_state\<lparr>targetsQuery := failed ''boom''\<rparr>)) \<and>
   \<not> fetching (targetsQuery (acme_state\<lparr>targetsQuery := failed ''boom''\<rparr>)) \<and>
   error (targetsQuery (acme_state\<lparr>targetsQuery := failed ''boom''\<rparr>)) \<noteq> None \<and>
   TargetLayout id Schema None (acme_state\<lparr>targetsQuery := failed ''boom''\<rparr>) =
     QueryError (Some (CombinedError ''boom''))"
  using
    spinner_then_error_display [of "acme_state\<lparr>targetsQuery := pending\<rparr>" id Schema None]
    spinner_then_error_display [of "acme_state\<lparr>targetsQuery := failed ''boom''\<rparr>" id Schema None]
  by (simp add: fixtures TargetLayout_def Let_def or_else_def)

text \<open>
  C9: loading takes precedence over the error: when one fetch is in flight and the
  other has reported an error, the component returns the spinner. When both fetches
  have settled and both have reported an error, the error display shows the project
  fetch's error.
\<close>

theorem loading_precedes_error:
  "((fetching (projectQuery s) \<and> error (targetsQuery s) \<noteq> None) \<or>
    (fetching (targetsQuery s) \<and> error (projectQuery s) \<noteq> None) \<longrightarrow>
      TargetLayout children val cn s = Spinner) \<and>
   (\<not> fetching (projectQuery s) \<and> \<not> fetching (targetsQuery s) \<and>
    error (projectQuery s) = Some e1 \<and> error (targetsQuery s) = Some e2 \<longrightarrow>
      TargetLayout children val cn s = QueryError (Some e1))"
  by (auto simp add: TargetLayout_def Let_def or_else_def)

theorem loading_precedes_error_witness:
  "fetching (projectQuery (acme_state\<lparr>projectQuery := pending, targetsQuery := failed ''targets''\<rparr>)) \<and>
   error (targetsQuery (acme_state\<lparr>projectQuery := pending, targetsQuery := failed ''targets''\<rparr>)) =
     Some (CombinedError ''targets'') \<and>
   TargetLayout id Schema None
     (acme_state\<lparr>projectQuery := pending, targetsQuery := failed ''targets''\<rparr>) = Spinner \<and>
   TargetLayout id Schema None
     (acme_state\<lparr>projectQuery := failed ''project'', targetsQuery := failed ''targets''\<rparr>) =
     QueryError (Some (CombinedError ''project''))"
  using
    loading_precedes_error
      [where s = "acme_state\<lparr>projectQuery := pending, targetsQuery := failed ''targets''\<rparr>"
         and children = id and val = Schema and cn = None]
    loading_precedes_error
      [where s = "acme_state\<lparr>projectQuery := failed ''project'', targetsQuery := failed ''targets''\<rparr>"
         and ?e1.0 = "CombinedError ''project''" and ?e2.0 = "CombinedError ''targets''"
         and children = id and val = Schema and cn = None]
  by (simp add: fixtures)

subsection \<open>The tab list and the content region\<close>

text \<open>
  C6: when the actor holds both the registry-read and the settings scope, the tab list
  of the main layout holds exactly five triggers in the order Schema, History,
  Operations, Laboratory, Settings; Schema links to \<^verbatim>\<open>/{org}/{project}/{target}\<close> and
  the others to that path followed by \<^verbatim>\<open>/history\<close>, \<^verbatim>\<open>/operations\<close>, \<^verbatim>\<open>/laboratory\<close>
  and \<^verbatim>\<open>/settings\<close>. The layout has one content region; its value is the active
  tab value and its body is what the children function returns.
\<close>

theorem five_tabs_in_order:
  assumes "canAccessTarget Scope_RegistryRead (me s)"
    and "canAccessTarget Scope_Settings (me s)"
    and "ready s"
  shows "\<exists>l. TargetLayout children val cn s = Fragment l \<and>
           triggers l =
             [(Schema,
               \<lparr>href = ''/'' @ organizationId (router s) @ ''/'' @ projectId (router s) @
                        ''/'' @ targetId (router s),
                label = ''Schema''\<rparr>),
              (History,
               \<lparr>href = ''/'' @ organizationId (router s) @ ''/'' @ projectId (router s) @
                        ''/'' @ targetId (router s) @ ''/history'',
                label = ''History''\<rparr>),
              (Operations,
               \<lparr>href = ''/'' @ organizationId (router s) @ ''/'' @ projectId (router s) @
                        ''/'' @ targetId (router s) @ ''/operations'',
                label = ''Operations''\<rparr>),
              (Laboratory,
               \<lparr>href = ''/'' @ organizationId (router s) @ ''/'' @ projectId (router s) @
                        ''/'' @ targetId (router s) @ ''/laboratory'',
                label = ''Laboratory''\<rparr>),
              (Settings,
               \<lparr>href = ''/'' @ organizationId (router s) @ ''/'' @ projectId (router s) @
                        ''/'' @ targetId (router s) @ ''/settings'',
                label = ''Settings''\<rparr>)] \<and>
           tabsValue l = val \<and> contentValue l = val \<and>
           contentBody l =
             children \<lparr>rp_target = target s, rp_project = project s, rp_organization = org s\<rparr>"
  using assms by (simp add: TargetLayout_def Let_def ready_def guard_def)

theorem five_tabs_in_order_witness:
  "canAccessTarget Scope_RegistryRead (me acme_state) \<and>
   canAccessTarget Scope_Settings (me acme_state) \<and> ready acme_state \<and>
   (\<exists>l. TargetLayout id History None acme_state = Fragment l \<and>
      triggers l =
        [(Schema, \<lparr>href = ''/acme/api/prod'', label = ''Schema''\<rparr>),
         (History, \<lparr>href = ''/acme/api/prod/history'', label = ''History''\<rparr>),
         (Operations, \<lparr>href = ''/acme/api/prod/operations'', label = ''Operations''\<rparr>),
         (Laboratory, \<lparr>href = ''/acme/api/prod/laboratory'', label = ''Laboratory''\<rparr>),
         (Settings, \<lparr>href = ''/acme/api/prod/settings'', label = ''Settings''\<rparr>)] \<and>
      tabsValue l = History \<and> contentValue l = History \<and>
      contentBody l =
        \<lparr>rp_target = Some \<lparr>cleanId = ''prod'', target_name = ''Production''\<rparr>,
         rp_project = Some \<lparr>project_name = ''API'', project_type = ''SINGLE''\<rparr>,
         rp_organization = Some \<lparr>org_name = ''Acme'', org_me = owner\<rparr>\<rparr>)"
  using five_tabs_in_order [of acme_state id History None]
  by (simp add: fixtures derived ready_def canAccessTarget_def)

subsection \<open>The path of the not-found redirect\<close>

text \<open>
  C7: the path that either not-found effect passes on is the current path without its
  fragment: everything from the first \<^verbatim>\<open>#\<close> on is removed, and a path without
  \<^verbatim>\<open>#\<close> is passed unchanged. The first part is for a path with no line terminator
  in it, as a URL is; the second for any path.
\<close>

theorem redirect_path_without_fragment:
  "(\<not> hasLineTerminator (asPath (router s)) \<longrightarrow>
      (\<forall>nav \<in> set (targetsEffect s @ projectEffect s).
         nav = Push ''/404'' (takeWhile (\<lambda>c. c \<noteq> CHR ''#'') (asPath (router s))))) \<and>
   (CHR ''#'' \<notin> set (asPath (router s)) \<longrightarrow>
      (\<forall>nav \<in> set (targetsEffect s @ projectEffect s). nav = Push ''/404'' (asPath (router s))))"
  by (auto simp add: targetsEffect_def projectEffect_def replace_fragment_takeWhile
        replace_fragment_unchanged split: if_splits)

theorem redirect_path_without_fragment_witness:
  "\<not> hasLineTerminator (asPath (router nowhere_state)) \<and>
   targetsEffect nowhere_state @ projectEffect nowhere_state =
     [Push ''/404'' ''/acme/api/prod'', Push ''/404'' ''/acme/api/prod''] \<and>
   CHR ''#'' \<notin>
     set (asPath (router (nowhere_state\<lparr>router := acme_router\<lparr>asPath := ''/acme/api/dev''\<rparr>\<rparr>))) \<and>
   targetsEffect (nowhere_state\<lparr>router := acme_router\<lparr>asPath := ''/acme/api/dev''\<rparr>\<rparr>) =
     [Push ''/404'' ''/acme/api/dev'']"
  using redirect_path_without_fragment [of nowhere_state]
    redirect_path_without_fragment
      [of "nowhere_state\<lparr>router := acme_router\<lparr>asPath := ''/acme/api/dev''\<rparr>\<rparr>"]
  by (simp add: fixtures derived targetsEffect_def projectEffect_def)

subsection \<open>The breadcrumb\<close>

text \<open>
  Both entities loaded is not enough: with the organization and the project loaded and
  the targets fetch still in flight, the component returns the spinner, and no
  breadcrumb with it.
\<close>

theorem breadcrumb_counterexample:
  "org (acme_state\<lparr>targetsQuery := pending\<rparr>) = Some \<lparr>org_name = ''Acme'', org_me = owner\<rparr> \<and>
   project (acme_state\<lparr>targetsQuery := pending\<rparr>) =
     Some \<lparr>project_name = ''API'', project_type = ''SINGLE''\<rparr> \<and>
   TargetLayout id Schema None (acme_state\<lparr>targetsQuery := pending\<rparr>) = Spinner \<and>
   breadcrumbOf (TargetLayout id Schema None (acme_state\<lparr>targetsQuery := pending\<rparr>)) = None"
  by (simp add: fixtures derived TargetLayout_def)

text \<open>
  C8, amended: the breadcrumb is rendered exactly when the main layout is rendered
  (neither fetch in flight, neither failed) and both the organization and the project
  are defined. It is then the organization's name linking to \<^verbatim>\<open>/{org}\<close> followed by
  the project's name linking to \<^verbatim>\<open>/{org}/{project}\<close>. If either entity is undefined,
  no breadcrumb is rendered.
\<close>

theorem breadcrumb_when_both_loaded:
  "(breadcrumbOf (TargetLayout children val cn s) \<noteq> None \<longleftrightarrow>
      ready s \<and> org s \<noteq> None \<and> project s \<noteq> None) \<and>
   (org s = None \<or> project s = None \<longrightarrow>
      breadcrumbOf (TargetLayout children val cn s) = None) \<and>
   (ready s \<and> org s = Some o1 \<and> project s = Some p \<longrightarrow>
      breadcrumbOf (TargetLayout children val cn s) =
        Some (\<lparr>href = ''/'' @ organizationId (router s), label = org_name o1\<rparr>,
              \<lparr>href = ''/'' @ organizationId (router s) @ ''/'' @ projectId (router s),
               label = project_name p\<rparr>))"
  by (auto simp add: TargetLayout_def Let_def ready_def split: option.splits)

theorem breadcrumb_when_both_loaded_witness:
  "ready acme_state \<and>
   org acme_state = Some \<lparr>org_name = ''Acme'', org_me = owner\<rparr> \<and>
   project acme_state = Some \<lparr>project_name = ''API'', project_type = ''SINGLE''\<rparr> \<and>
   breadcrumbOf (TargetLayout id Schema None acme_state) =
     Some (\<lparr>href = ''/acme'', label = ''Acme''\<rparr>, \<lparr>href = ''/acme/api'', label = ''API''\<rparr>) \<and>
   project nowhere_state = None \<and>
   breadcrumbOf (TargetLayout id Schema None nowhere_state) = None"
  using
    breadcrumb_when_both_loaded
      [where s = acme_state and ?o1.0 = "\<lparr>org_name = ''Acme'', org_me = owner\<rparr>"
         and p = "\<lparr>project_name = ''API'', project_type = ''SINGLE''\<rparr>"
         and children = id and val = Schema and cn = None]
    breadcrumb_when_both_loaded
      [where s = nowhere_state and children = id and val = Schema and cn = None]
  by (simp add: fixtures derived ready_def)

subsection \<open>Render props for missing entities\<close>

text \<open>
  C10: when both fetches have settled without error, the main layout is returned even if
  the target, the project or the organization is absent, and the children function
  is applied to render props in which each absent entity is undefined. The props
  carry the three values as they were resolved, absent or not.
\<close>

theorem children_receive_missing_entities:
  assumes "ready s"
  shows "\<exists>l props. TargetLayout children val cn s = Fragment l \<and>
           contentBody l = children props \<and>
           rp_target props = target s \<and> rp_project props = project s \<and>
           rp_organization props = org s"
proof -
  let ?props = "\<lparr>rp_target = target s, rp_project = project s, rp_organization = org s\<rparr>"
  have "\<exists>l. TargetLayout children val cn s = Fragment l \<and> contentBody l = children ?props"
    using assms by (simp add: TargetLayout_def Let_def ready_def)
  then obtain l where
    "TargetLayout children val cn s = Fragment l" and "contentBody l = children ?props"
    by blast
  moreover have "rp_target ?props = target s \<and> rp_project ?props = project s \<and>
      rp_organization ?props = org s"
    by simp
  ultimately show ?thesis
    by blast
qed

text \<open>Neither the target nor the project exists; the children function sees both undefined.\<close>

theorem children_receive_missing_entities_witness:
  "ready nowhere_state \<and> target nowhere_state = None \<and> project nowhere_state = None \<and>
   (\<exists>l. TargetLayout id Schema None nowhere_state = Fragment l \<and>
      contentBody l =
        \<lparr>rp_target = None, rp_project = None,
         rp_organization = Some \<lparr>org_name = ''Acme'', org_me = guest\<rparr>\<rparr>)"
  using children_receive_missing_entities [of nowhere_state id Schema None]
  by (simp add: fixtures derived ready_def TargetLayout_def Let_def)

end
